theory Spec2Isabelle
  imports Main "HOL-Library.Sublist" "HOL-Library.Char_ord" "HOL-Library.List_Lexorder"
begin

section \<open>JavaScript strings\<close>

text \<open>
  A string is the list of the bytes of its UTF-8 encoding, the form in which the text
  arrives in the uploaded file and in which SQLite holds and compares it. The functions
  of JavaScript below act on characters; each is written on the encoding.
\<close>

text \<open>
  The characters that \<open>trim\<close>, \<open>parseInt\<close> and \<open>parseFloat\<close> strip: the white space and
  line terminators of ECMAScript, that is TAB, LF, VT, FF, CR, SPACE, U+00A0, U+1680,
  U+2000 to U+200A, U+2028, U+2029, U+202F, U+205F, U+3000 and U+FEFF, each as the bytes
  of its encoding (U+00A0 is \<open>C2 A0\<close>, the byte order mark U+FEFF is \<open>EF BB BF\<close>).
\<close>

definition white_space :: "string list" where
  "white_space =
     [[CHR 0x09], [CHR 0x0A], [CHR 0x0B], [CHR 0x0C], [CHR 0x0D], [CHR 0x20],
      [CHR 0xC2, CHR 0xA0],
      [CHR 0xE1, CHR 0x9A, CHR 0x80],
      [CHR 0xE2, CHR 0x80, CHR 0x80], [CHR 0xE2, CHR 0x80, CHR 0x81],
      [CHR 0xE2, CHR 0x80, CHR 0x82], [CHR 0xE2, CHR 0x80, CHR 0x83],
      [CHR 0xE2, CHR 0x80, CHR 0x84], [CHR 0xE2, CHR 0x80, CHR 0x85],
      [CHR 0xE2, CHR 0x80, CHR 0x86], [CHR 0xE2, CHR 0x80, CHR 0x87],
      [CHR 0xE2, CHR 0x80, CHR 0x88], [CHR 0xE2, CHR 0x80, CHR 0x89],
      [CHR 0xE2, CHR 0x80, CHR 0x8A],
      [CHR 0xE2, CHR 0x80, CHR 0xA8], [CHR 0xE2, CHR 0x80, CHR 0xA9],
      [CHR 0xE2, CHR 0x80, CHR 0xAF],
      [CHR 0xE2, CHR 0x81, CHR 0x9F],
      [CHR 0xE3, CHR 0x80, CHR 0x80],
      [CHR 0xEF, CHR 0xBB, CHR 0xBF]]"

text \<open>
  \<open>strip ws s\<close> removes from the front of \<open>s\<close> every leading occurrence of a sequence of
  \<open>ws\<close>. \<open>trimStart\<close> strips the white space at the front, \<open>trimEnd\<close> at the back (on
  the reversed string, with the reversed encodings), \<open>trim\<close> both.
\<close>

function strip :: "string list \<Rightarrow> string \<Rightarrow> string" where
  "strip ws s =
     (case find (\<lambda>w. prefix w s) ws of
        None \<Rightarrow> s
      | Some w \<Rightarrow> if w = [] then s else strip ws (drop (length w) s))"
  by pat_completeness auto

termination
  by (relation "measure (\<lambda>(ws, s). length s)") (auto simp: find_Some_iff prefix_def)

declare strip.simps [simp del]

definition trimStart :: "string \<Rightarrow> string" where
  "trimStart s = strip white_space s"

definition trimEnd :: "string \<Rightarrow> string" where
  "trimEnd s = rev (strip (map rev white_space) (rev s))"

definition trim :: "string \<Rightarrow> string" where
  "trim s = trimEnd (trimStart s)"

text \<open>
  \<open>toLowerCase\<close> folds \<open>A\<close>..\<open>Z\<close>. The code applies it to column names, to compare them
  with the required names: a name with a character outside ASCII does not lower-case to
  a required name (the one such character that lower-cases into ASCII is U+212A, to
  \<open>k\<close>, a letter of no required name), so the comparison is not affected by the
  characters left unchanged here.
\<close>

definition toLowerCase_char :: "char \<Rightarrow> char" where
  "toLowerCase_char c =
     (case map_of (zip ''ABCDEFGHIJKLMNOPQRSTUVWXYZ'' ''abcdefghijklmnopqrstuvwxyz'') c of
        None \<Rightarrow> c | Some l \<Rightarrow> l)"

definition toLowerCase :: "string \<Rightarrow> string" where
  "toLowerCase s = map toLowerCase_char s"

definition is_digit :: "char \<Rightarrow> bool" where
  "is_digit c = (c \<in> set ''0123456789'')"

text \<open>The value of a digit in radix 10 or 16; \<open>None\<close> for any other character.\<close>

definition digit_value :: "char \<Rightarrow> int option" where
  "digit_value c =
     map_of (zip ''0123456789abcdef'' [0, 1, 2, 3, 4, 5, 6, 7, 8, 9, 10, 11, 12, 13, 14, 15])
       (toLowerCase_char c)"

definition is_radix_digit :: "int \<Rightarrow> char \<Rightarrow> bool" where
  "is_radix_digit radix c = (case digit_value c of None \<Rightarrow> False | Some d \<Rightarrow> d < radix)"

definition digits_value :: "int \<Rightarrow> string \<Rightarrow> int" where
  "digits_value radix z =
     foldl (\<lambda>acc c. acc * radix + (case digit_value c of None \<Rightarrow> 0 | Some d \<Rightarrow> d)) 0 z"

text \<open>Template-literal rendering of a row number: its decimal digits.\<close>

fun string_of_nat :: "nat \<Rightarrow> string" where
  "string_of_nat n =
     (if n < 10 then [''0123456789'' ! n]
      else string_of_nat (n div 10) @ [''0123456789'' ! (n mod 10)])"

declare string_of_nat.simps [simp del]

text \<open>\<open>Array.prototype.join\<close>.\<close>

fun join :: "string \<Rightarrow> string list \<Rightarrow> string" where
  "join sep [] = []"
| "join sep [x] = x"
| "join sep (x # y # ys) = x @ sep @ join sep (y # ys)"

text \<open>
  A field read from an object is a string or \<open>undefined\<close> (\<open>None\<close>). \<open>!v\<close> holds for
  \<open>undefined\<close> and for the empty string; \<open>String(undefined)\<close> is the text \<open>undefined\<close>.
\<close>

definition falsy :: "string option \<Rightarrow> bool" where
  "falsy v = (case v of None \<Rightarrow> True | Some s \<Rightarrow> s = [])"

definition js_String :: "string option \<Rightarrow> string" where
  "js_String v = (case v of None \<Rightarrow> ''undefined'' | Some s \<Rightarrow> s)"

text \<open>The regular expression \<open>/^\d{4}-\d{2}$/\<close>.\<close>

definition month_format :: "string \<Rightarrow> bool" where
  "month_format s =
     (length s = 7 \<and> list_all is_digit (take 4 s) \<and> s ! 4 = CHR ''-'' \<and>
      list_all is_digit (drop 5 s))"

section \<open>JavaScript numbers\<close>

text \<open>
  A Number is \<open>NaN\<close>, an infinity, or a finite double. A finite double is written
  exactly as a decimal: \<open>Decimal m e\<close> is \<open>m \<times> 10^e\<close>, with \<open>e = 0\<close> for an integer and
  otherwise \<open>e < 0\<close> and \<open>m\<close> not a multiple of 10, so that equal doubles are equal terms.
  The two zeros are one, \<open>Decimal 0 0\<close>: the code tells them apart nowhere.
\<close>

datatype number = NaN | Infinity | NegInfinity | Decimal int int

text \<open>The number of binary digits of a positive integer, and of its trailing zeros.\<close>

function bit_length :: "int \<Rightarrow> int" where
  "bit_length n = (if n \<le> 0 then 0 else 1 + bit_length (n div 2))"
  by pat_completeness auto

termination
  by (relation "measure nat") auto

declare bit_length.simps [simp del]

function trailing_zero_bits :: "int \<Rightarrow> int" where
  "trailing_zero_bits n = (if n = 0 \<or> odd n then 0 else 1 + trailing_zero_bits (n div 2))"
  by pat_completeness auto

termination
  by (relation "measure (\<lambda>n. nat \<bar>n\<bar>)") auto

declare trailing_zero_bits.simps [simp del]

text \<open>The integer nearest to \<open>a / b\<close>, the even one of two that are equally near.\<close>

definition round_half_even :: "int \<Rightarrow> int \<Rightarrow> int" where
  "round_half_even a b =
     (let d = a div b; r = a mod b
      in if b < 2 * r \<or> (2 * r = b \<and> odd d) then d + 1 else d)"

text \<open>The fraction \<open>(p / q) / 2^k\<close>, as numerator and denominator.\<close>

definition scale2 :: "int \<Rightarrow> int \<Rightarrow> int \<Rightarrow> int \<times> int" where
  "scale2 p q k = (if k \<le> 0 then (p * 2 ^ nat (- k), q) else (p, q * 2 ^ nat k))"

text \<open>The decimal that is \<open>n \<times> 2^k\<close>, for \<open>n \<noteq> 0\<close>.\<close>

definition decimal_of :: "int \<Rightarrow> int \<Rightarrow> number" where
  "decimal_of n k =
     (if 0 \<le> k then Decimal (n * 2 ^ nat k) 0
      else (let j = min (- k) (trailing_zero_bits n);
                n' = n div 2 ^ nat j;
                k' = k + j
            in if k' = 0 then Decimal n' 0 else Decimal (n' * 5 ^ nat (- k')) k'))"

text \<open>
  The Number value of the real \<open>m \<times> 10^e\<close>: the double nearest to it, the one with an
  even significand of two that are equally near; an infinity from \<open>2^1024 - 2^970\<close> on.
  With \<open>l\<close> the binary exponent of the real, the significand \<open>f\<close> is the real divided by
  \<open>2^k\<close> and rounded, where \<open>k = l - 52\<close>, and \<open>k = -1074\<close> for a subnormal.
\<close>

definition to_double :: "int \<Rightarrow> int \<Rightarrow> number" where
  "to_double m e =
     (let p = \<bar>m\<bar> * (if 0 \<le> e then 10 ^ nat e else 1);
          q = (if 0 \<le> e then 1 else 10 ^ nat (- e));
          t = bit_length p - bit_length q;
          (a, b) = scale2 p q t;
          l = (if b \<le> a then t else t - 1);
          k = max (l - 52) (- 1074);
          (c, d) = scale2 p q k;
          f = round_half_even c d
      in if f = 0 then Decimal 0 0
         else if 971 < k \<or> (k = 971 \<and> f = 2 ^ 53)
         then (if m < 0 then NegInfinity else Infinity)
         else decimal_of (sgn m * f) k)"

text \<open>An optional leading sign, as \<open>parseInt\<close> and \<open>parseFloat\<close> read it.\<close>

definition strip_sign :: "string \<Rightarrow> bool \<times> string" where
  "strip_sign s =
     (case s of
        [] \<Rightarrow> (False, s)
      | c # cs \<Rightarrow> if c = CHR ''-'' then (True, cs)
                 else if c = CHR ''+'' then (False, cs) else (False, s))"

text \<open>
  \<open>parseInt(string)\<close> with no radix argument: leading white space is skipped, a sign is
  read, a \<open>0x\<close>/\<open>0X\<close> prefix selects radix 16, and the longest prefix of digits is the
  value, as a Number; \<open>NaN\<close> when that prefix is empty.
\<close>

definition parseInt :: "string \<Rightarrow> number" where
  "parseInt input =
     (let (neg, s1) = strip_sign (trimStart input);
          (radix, s2) =
            (case s1 of
               a # b # cs \<Rightarrow>
                 if a = CHR ''0'' \<and> (b = CHR ''x'' \<or> b = CHR ''X'') then (16, cs) else (10, s1)
             | _ \<Rightarrow> (10, s1));
          z = takeWhile (is_radix_digit radix) s2
      in if z = [] then NaN
         else to_double ((if neg then - 1 else 1) * digits_value radix z) 0)"

text \<open>The exponent part \<open>e\<close>/\<open>E\<close>, optional sign, digits; absent or incomplete it is 0.\<close>

definition exponent_part :: "string \<Rightarrow> int" where
  "exponent_part s =
     (case s of
        [] \<Rightarrow> 0
      | c # cs \<Rightarrow>
          if c = CHR ''e'' \<or> c = CHR ''E'' then
            (let (neg, ds) = strip_sign cs; d = takeWhile is_digit ds
             in if d = [] then 0
                else (if neg then - 1 else 1) * digits_value 10 d)
          else 0)"

text \<open>
  \<open>parseFloat(string)\<close>: the longest prefix, after leading white space, that is a decimal
  literal (sign, \<open>Infinity\<close>, or digits with an optional fraction and exponent). With
  integer digits \<open>ip\<close>, fraction digits \<open>fp\<close> and exponent \<open>x\<close> the literal is the number
  written \<open>ip fp\<close> times \<open>10^(x - length fp)\<close>, and the result its Number value.
\<close>

definition parseFloat :: "string \<Rightarrow> number" where
  "parseFloat input =
     (let (neg, s1) = strip_sign (trimStart input)
      in if prefix ''Infinity'' s1 then (if neg then NegInfinity else Infinity)
         else
           (let ip = takeWhile is_digit s1;
                r1 = dropWhile is_digit s1;
                (fp, r2) =
                  (case r1 of
                     [] \<Rightarrow> ([], r1)
                   | c # cs \<Rightarrow>
                       if c = CHR ''.'' then (takeWhile is_digit cs, dropWhile is_digit cs)
                       else ([], r1))
            in if ip = [] \<and> fp = [] then NaN
               else to_double ((if neg then - 1 else 1) * digits_value 10 (ip @ fp))
                              (exponent_part r2 - int (length fp))))"

text \<open>\<open>isNaN(x)\<close>, and \<open>x < y\<close> on Numbers: false when either is \<open>NaN\<close>.\<close>

definition isNaN :: "number \<Rightarrow> bool" where
  "isNaN x = (x = NaN)"

fun lt :: "number \<Rightarrow> number \<Rightarrow> bool" where
  "lt NaN y = False"
| "lt x NaN = False"
| "lt x NegInfinity = False"
| "lt NegInfinity y = True"
| "lt Infinity y = False"
| "lt x Infinity = True"
| "lt (Decimal m e) (Decimal n f) =
     (m * 10 ^ nat (e - min e f) < n * 10 ^ nat (f - min e f))"

text \<open>\<open>x || d\<close>: \<open>NaN\<close> and zero give \<open>d\<close>, any other Number itself.\<close>

fun or_else :: "number \<Rightarrow> number \<Rightarrow> number" where
  "or_else NaN d = d"
| "or_else (Decimal m e) d = (if m = 0 then d else Decimal m e)"
| "or_else x d = x"

text \<open>\<open>Math.max\<close> and \<open>Math.min\<close> of two Numbers.\<close>

definition Math_max :: "number \<Rightarrow> number \<Rightarrow> number" where
  "Math_max x y = (if isNaN x \<or> isNaN y then NaN else if lt x y then y else x)"

definition Math_min :: "number \<Rightarrow> number \<Rightarrow> number" where
  "Math_min x y = (if isNaN x \<or> isNaN y then NaN else if lt y x then y else x)"

section \<open>Rows and the validators\<close>

text \<open>
  A parsed CSV record is an object keyed by the column names, in insertion order. The
  parser option \<open>columns: true\<close> builds it by assigning the fields to the header's names
  from left to right, so a repeated column name keeps its position and its last value.
\<close>

type_synonym row = "(string \<times> string) list"

fun assign :: "row \<Rightarrow> string \<Rightarrow> string \<Rightarrow> row" where
  "assign [] k v = [(k, v)]"
| "assign ((k', v') # r) k v = (if k' = k then (k, v) # r else (k', v') # assign r k v)"

definition to_object :: "string list \<Rightarrow> string list \<Rightarrow> row" where
  "to_object columns values = foldl (\<lambda>obj (k, v). assign obj k v) [] (zip columns values)"

definition object_keys :: "row \<Rightarrow> string list" where
  "object_keys r = map fst r"

definition field :: "row \<Rightarrow> string \<Rightarrow> string option" where
  "field r k = map_of r k"

definition REQUIRED_HEADERS :: "string list" where
  "REQUIRED_HEADERS =
     [''ngo_id'', ''month'', ''people_helped'', ''events_conducted'', ''funds_utilized'']"

text \<open>
  \<open>validateHeaders\<close> returns \<open>{isValid: true}\<close> (\<open>None\<close>) or \<open>{isValid: false, error}\<close>
  (\<open>Some error\<close>).
\<close>

definition missingHeaders :: "string list \<Rightarrow> string list" where
  "missingHeaders headers =
     (let normalizedHeaders = map (\<lambda>h. trim (toLowerCase h)) headers
      in filter (\<lambda>required. required \<notin> set normalizedHeaders) REQUIRED_HEADERS)"

definition validateHeaders :: "string list \<Rightarrow> string option" where
  "validateHeaders headers =
     (if length (missingHeaders headers) > 0
      then Some (''Missing required columns: '' @ join '', '' (missingHeaders headers))
      else None)"

text \<open>
  The stored columns of a report that the validators produce: the key \<open>(ngo_id, month)\<close>
  and the three metrics, each the Number that the validator passes to the store (the
  store keeps its value). The table's \<open>id\<close> and timestamp columns are not read by any
  operation below and are left out.
\<close>

record report =
  ngo_id :: string
  month :: string
  people_helped :: number
  events_conducted :: number
  funds_utilized :: number

record validation =
  isValid :: bool
  errors :: "string list"
  data :: report

text \<open>
  \<open>validateRow(row, rowIndex)\<close>, the validator of the bulk path. The five checks push
  their messages in field order; \<open>data\<close> is built whether or not the row is valid.
\<close>

definition validateRow :: "row \<Rightarrow> nat \<Rightarrow> validation" where
  "validateRow r rowIndex =
     (let pre = ''Row '' @ string_of_nat rowIndex @ '': '';
          e1 = (if falsy (field r ''ngo_id'') \<or> trim (js_String (field r ''ngo_id'')) = []
                then [pre @ ''NGO ID is required''] else []);
          e2 = (if falsy (field r ''month'') \<or> trim (js_String (field r ''month'')) = []
                then [pre @ ''Month is required'']
                else if \<not> month_format (trim (js_String (field r ''month'')))
                then [pre @ ''Month must be in YYYY-MM format''] else []);
          peopleHelped = parseInt (js_String (field r ''people_helped''));
          e3 = (if isNaN peopleHelped \<or> lt peopleHelped (Decimal 0 0)
                then [pre @ ''People Helped must be a non-negative number''] else []);
          eventsConducted = parseInt (js_String (field r ''events_conducted''));
          e4 = (if isNaN eventsConducted \<or> lt eventsConducted (Decimal 0 0)
                then [pre @ ''Events Conducted must be a non-negative number''] else []);
          fundsUtilized = parseFloat (js_String (field r ''funds_utilized''));
          e5 = (if isNaN fundsUtilized \<or> lt fundsUtilized (Decimal 0 0)
                then [pre @ ''Funds Utilized must be a non-negative number''] else []);
          errors = e1 @ e2 @ e3 @ e4 @ e5
      in \<lparr> isValid = (length errors = 0),
           errors = errors,
           data = \<lparr> ngo_id = trim (js_String (field r ''ngo_id'')),
                    month = trim (js_String (field r ''month'')),
                    people_helped = or_else peopleHelped (Decimal 0 0),
                    events_conducted = or_else eventsConducted (Decimal 0 0),
                    funds_utilized = or_else fundsUtilized (Decimal 0 0) \<rparr> \<rparr>)"

text \<open>
  \<open>validateReport(data)\<close>, the validator of the single-record path, on a request body
  whose fields are strings or absent. (A JSON number reaches \<open>parseInt\<close> and
  \<open>parseFloat\<close> through \<open>String\<close>, so it is covered by its decimal text.)
\<close>

definition validateReport :: "row \<Rightarrow> validation" where
  "validateReport body =
     (let e1 = (if falsy (field body ''ngo_id'') \<or> trim (js_String (field body ''ngo_id'')) = []
                then [''NGO ID is required''] else []);
          e2 = (if falsy (field body ''month'') \<or> trim (js_String (field body ''month'')) = []
                then [''Month is required'']
                else if \<not> month_format (trim (js_String (field body ''month'')))
                then [''Month must be in YYYY-MM format (e.g., 2024-01)''] else []);
          peopleHelped = parseInt (js_String (field body ''people_helped''));
          e3 = (if isNaN peopleHelped \<or> lt peopleHelped (Decimal 0 0)
                then [''People Helped must be a non-negative number''] else []);
          eventsConducted = parseInt (js_String (field body ''events_conducted''));
          e4 = (if isNaN eventsConducted \<or> lt eventsConducted (Decimal 0 0)
                then [''Events Conducted must be a non-negative number''] else []);
          fundsUtilized = parseFloat (js_String (field body ''funds_utilized''));
          e5 = (if isNaN fundsUtilized \<or> lt fundsUtilized (Decimal 0 0)
                then [''Funds Utilized must be a non-negative number''] else []);
          errors = e1 @ e2 @ e3 @ e4 @ e5
      in \<lparr> isValid = (length errors = 0),
           errors = errors,
           data = \<lparr> ngo_id = trim (js_String (field body ''ngo_id'')),
                    month = trim (js_String (field body ''month'')),
                    people_helped = or_else peopleHelped (Decimal 0 0),
                    events_conducted = or_else eventsConducted (Decimal 0 0),
                    funds_utilized = or_else fundsUtilized (Decimal 0 0) \<rparr> \<rparr>)"

section \<open>The record store\<close>

text \<open>
  The table \<open>reports\<close> is the list of its rows in insertion order. The statement
  \<open>insertOrUpdateReport\<close> inserts a row, and on a conflict with the constraint
  \<open>UNIQUE(ngo_id, month)\<close> overwrites the three metrics of the conflicting row instead.
\<close>

definition report_key :: "report \<Rightarrow> string \<times> string" where
  "report_key r = (ngo_id r, month r)"

definition same_key :: "report \<Rightarrow> report \<Rightarrow> bool" where
  "same_key d r = (ngo_id r = ngo_id d \<and> month r = month d)"

definition insertOrUpdateReport :: "report \<Rightarrow> report list \<Rightarrow> report list" where
  "insertOrUpdateReport d t =
     (if list_ex (same_key d) t
      then map (\<lambda>r. if same_key d r
                     then r\<lparr> people_helped := people_helped d,
                             events_conducted := events_conducted d,
                             funds_utilized := funds_utilized d \<rparr>
                     else r) t
      else t @ [d])"

text \<open>The constraint \<open>UNIQUE(ngo_id, month)\<close> on a table.\<close>

definition unique_keys :: "report list \<Rightarrow> bool" where
  "unique_keys t = distinct (map report_key t)"

section \<open>Jobs\<close>

datatype job_status = pending | processing | completed | failed

text \<open>
  A row of the table \<open>jobs\<close>; the column \<open>errors\<close> holds the JSON text of a list of
  strings and is modelled as that list.
\<close>

record job =
  status :: job_status
  total_rows :: nat
  processed_rows :: nat
  successful_rows :: nat
  failed_rows :: nat
  job_errors :: "string list"

text \<open>\<open>createJob.run(jobId, 0)\<close>: the row as the upload route creates it.\<close>

definition createJob :: job where
  "createJob = \<lparr> status = pending, total_rows = 0, processed_rows = 0,
                 successful_rows = 0, failed_rows = 0, job_errors = [] \<rparr>"

text \<open>\<open>setJobFailed(jobId, errorMessage)\<close>: the values it writes to the job's row.\<close>

definition setJobFailed :: "string \<Rightarrow> job" where
  "setJobFailed errorMessage =
     \<lparr> status = failed, total_rows = 0, processed_rows = 0,
       successful_rows = 0, failed_rows = 0, job_errors = [errorMessage] \<rparr>"

section \<open>The ingestion pipeline\<close>

text \<open>
  An upload is seen through the parser \<open>csv-parse\<close>: the column names of its header line
  and the events the parser emits, one \<open>data\<close> event per record (its fields, as many as
  the header has columns) and at most one \<open>error\<close> event, after which the stream is
  dead. The end of the list is the \<open>end\<close> event.
\<close>

datatype parser_event = Data "string list" | Error string

record csv_upload =
  header :: "string list"
  stream :: "parser_event list"

text \<open>
  The first pass, the handlers of \<open>data\<close> and \<open>error\<close>: the header is validated on the
  first record, from the keys of that record; a failure destroys the parser, so no later
  event is handled. Otherwise every record is pushed to \<open>results\<close> with its 1-based index.
\<close>

datatype first_pass =
  HeaderRejected string | ParseFailed string | Ended "(row \<times> nat) list"

fun read_stream ::
  "string list \<Rightarrow> parser_event list \<Rightarrow> bool \<Rightarrow> nat \<Rightarrow> (row \<times> nat) list \<Rightarrow> first_pass"
where
  "read_stream columns [] headersValidated rowIndex results = Ended results"
| "read_stream columns (Error err # evs) headersValidated rowIndex results = ParseFailed err"
| "read_stream columns (Data values # evs) headersValidated rowIndex results =
     (let r = to_object columns values
      in if headersValidated
         then read_stream columns evs True (rowIndex + 1) (results @ [(r, rowIndex + 1)])
         else (case validateHeaders (object_keys r) of
                 Some err \<Rightarrow> HeaderRejected err
               | None \<Rightarrow>
                   read_stream columns evs True (rowIndex + 1) (results @ [(r, rowIndex + 1)])))"

text \<open>
  The state of the second pass: the counters, the collected messages, the table
  \<open>reports\<close>, and the values written to the job's row so far, oldest first.
\<close>

record progress =
  processedRows :: nat
  successfulRows :: nat
  failedRows :: nat
  collected :: "string list"
  table :: "report list"
  written :: "job list"

text \<open>The object that the loop passes to \<open>updateJobProgress.run\<close> after a row.\<close>

definition job_progress :: "nat \<Rightarrow> progress \<Rightarrow> job" where
  "job_progress totalRows st =
     \<lparr> status = (if processedRows st = totalRows then completed else processing),
       total_rows = totalRows,
       processed_rows = processedRows st,
       successful_rows = successfulRows st,
       failed_rows = failedRows st,
       job_errors = collected st \<rparr>"

text \<open>
  The loop over \<open>results\<close>: \<open>process_row\<close> is its body, one pass for the record
  \<open>{row, rowIndex}\<close>. \<open>insertOrUpdateReport.run\<close> may throw; \<open>dbError rowIndex\<close> is
  the message of the exception thrown while storing that row, \<open>None\<close> when the store
  accepts it. Writes to the job's row are taken to succeed (the code does not handle
  their failure).
\<close>

definition process_row ::
  "(nat \<Rightarrow> string option) \<Rightarrow> nat \<Rightarrow> row \<times> nat \<Rightarrow> progress \<Rightarrow> progress"
where
  "process_row dbError totalRows item st =
     (let r = fst item; rowIndex = snd item;
          validation = validateRow r rowIndex;
          st1 = st\<lparr> processedRows := processedRows st + 1 \<rparr>;
          st2 =
            (if isValid validation then
               (case dbError rowIndex of
                  None \<Rightarrow>
                    st1\<lparr> table := insertOrUpdateReport (data validation) (table st1),
                         successfulRows := successfulRows st1 + 1 \<rparr>
                | Some message \<Rightarrow>
                    st1\<lparr> failedRows := failedRows st1 + 1,
                         collected := collected st1 @
                           [''Row '' @ string_of_nat rowIndex @ '': Database error - '' @ message] \<rparr>)
             else st1\<lparr> failedRows := failedRows st1 + 1,
                       collected := collected st1 @ errors validation \<rparr>)
      in st2\<lparr> written := written st2 @ [job_progress totalRows st2] \<rparr>)"

fun process_rows ::
  "(nat \<Rightarrow> string option) \<Rightarrow> nat \<Rightarrow> (row \<times> nat) list \<Rightarrow> progress \<Rightarrow> progress"
where
  "process_rows dbError totalRows [] st = st"
| "process_rows dbError totalRows (item # rest) st =
     process_rows dbError totalRows rest (process_row dbError totalRows item st)"

text \<open>What the promise of \<open>processCSVFile\<close> settles to.\<close>

record summary =
  totalRows :: nat
  summary_successfulRows :: nat
  summary_failedRows :: nat
  summary_errors :: "string list"

datatype settled = Resolved summary | Rejected string

text \<open>
  The effects of one call of \<open>processCSVFile\<close>: the settled promise, the values written
  to the job's row in order, and the table \<open>reports\<close> afterwards.
\<close>

record run =
  promise :: settled
  job_writes :: "job list"
  reports :: "report list"

text \<open>
  The state in which the loop starts: the counters are zero, nothing is collected, and
  the job's row has been written once, with status \<open>processing\<close> and the total.
\<close>

definition start_processing :: "nat \<Rightarrow> report list \<Rightarrow> progress" where
  "start_processing n t =
     \<lparr> processedRows = 0, successfulRows = 0, failedRows = 0, collected = [], table = t,
       written = [\<lparr> status = processing, total_rows = n, processed_rows = 0,
                    successful_rows = 0, failed_rows = 0, job_errors = [] \<rparr>] \<rparr>"

definition empty_message :: string where
  "empty_message = ''CSV file is empty or contains no data rows''"

definition processCSVFile :: "(nat \<Rightarrow> string option) \<Rightarrow> report list \<Rightarrow> csv_upload \<Rightarrow> run" where
  "processCSVFile dbError t u =
     (case read_stream (header u) (stream u) False 0 [] of
        HeaderRejected err \<Rightarrow>
          \<lparr> promise = Rejected err, job_writes = [setJobFailed err], reports = t \<rparr>
      | ParseFailed err \<Rightarrow>
          \<lparr> promise = Rejected err,
            job_writes = [setJobFailed (''CSV parse error: '' @ err)], reports = t \<rparr>
      | Ended results \<Rightarrow>
          if length results = 0 then
            \<lparr> promise = Resolved \<lparr> totalRows = 0, summary_successfulRows = 0,
                                   summary_failedRows = 0, summary_errors = [empty_message] \<rparr>,
              job_writes = [setJobFailed empty_message], reports = t \<rparr>
          else
            (let totalRows = length results;
                 st = process_rows dbError totalRows results (start_processing totalRows t)
             in \<lparr> promise = Resolved \<lparr> totalRows = totalRows,
                                       summary_successfulRows = successfulRows st,
                                       summary_failedRows = failedRows st,
                                       summary_errors = collected st \<rparr>,
                  job_writes = written st, reports = table st \<rparr>))"

text \<open>
  The successive states of the job's row for one upload: the row the upload route creates,
  then every value \<open>processCSVFile\<close> writes. The last one is the state the job ends in.
\<close>

definition job_states :: "(nat \<Rightarrow> string option) \<Rightarrow> report list \<Rightarrow> csv_upload \<Rightarrow> job list" where
  "job_states dbError t u = createJob # job_writes (processCSVFile dbError t u)"

definition final_job :: "(nat \<Rightarrow> string option) \<Rightarrow> report list \<Rightarrow> csv_upload \<Rightarrow> job" where
  "final_job dbError t u = last (job_states dbError t u)"

section \<open>The dashboard query\<close>

text \<open>
  The operator \<open>LIKE\<close> of SQLite with its default settings (the code sets no
  \<open>case_sensitive_like\<close> pragma and no escape character). \<open>patternCompare\<close> is the
  matcher: \<open>%\<close> in the pattern matches any sequence of characters, \<open>_\<close> any single
  character (a byte from \<open>0xC0\<close> on together with the continuation bytes after it), and
  any other character matches itself or, for the ASCII letters, its other case. The
  matcher reads both texts as C strings, so each ends at its first zero byte.
\<close>

definition c_string :: "string \<Rightarrow> string" where
  "c_string s = takeWhile (\<lambda>c. c \<noteq> CHR 0x00) s"

definition utf8_continuation :: "char \<Rightarrow> bool" where
  "utf8_continuation c = ((of_char c :: int) div 64 = 2)"

function patternCompare :: "string \<Rightarrow> string \<Rightarrow> bool" where
  "patternCompare [] [] = True"
| "patternCompare [] (c # cs) = False"
| "patternCompare (p # ps) [] = (p = CHR ''%'' \<and> patternCompare ps [])"
| "patternCompare (p # ps) (c # cs) =
     (if p = CHR ''%'' then patternCompare ps (c # cs) \<or> patternCompare (p # ps) cs
      else if p = CHR ''_''
      then patternCompare ps
             (if 192 \<le> (of_char c :: int) then dropWhile utf8_continuation cs else cs)
      else toLowerCase_char p = toLowerCase_char c \<and> patternCompare ps cs)"
  by pat_completeness auto

termination
  by (relation "measure (\<lambda>(p, s). length p + length s)")
    (auto intro!: le_imp_less_Suc le_SucI length_dropWhile_le)

definition like :: "string \<Rightarrow> string \<Rightarrow> bool" where
  "like p s = patternCompare (c_string p) (c_string s)"

record filters =
  monthFrom :: "string option"
  monthTo :: "string option"
  ngoId :: "string option"

text \<open>
  The \<open>WHERE\<close> clause that \<open>getFilteredReports\<close> and \<open>getFilteredDashboardStats\<close> build:
  one condition for each filter that is set and not empty, joined by \<open>AND\<close>. Text is
  compared byte-wise.
\<close>

definition ngo_condition :: "string \<Rightarrow> report \<Rightarrow> bool" where
  "ngo_condition f r = like (''%'' @ f @ ''%'') (ngo_id r)"

definition where_clause :: "filters \<Rightarrow> report \<Rightarrow> bool" where
  "where_clause f r =
     ((falsy (monthFrom f) \<or> js_String (monthFrom f) \<le> month r) \<and>
      (falsy (monthTo f) \<or> month r \<le> js_String (monthTo f)) \<and>
      (falsy (ngoId f) \<or> ngo_condition (js_String (ngoId f)) r))"

text \<open>\<open>ORDER BY month DESC, ngo_id ASC\<close>, by insertion.\<close>

definition ordered_before :: "report \<Rightarrow> report \<Rightarrow> bool" where
  "ordered_before r s = (month s < month r \<or> (month s = month r \<and> ngo_id r \<le> ngo_id s))"

fun insert_ordered :: "report \<Rightarrow> report list \<Rightarrow> report list" where
  "insert_ordered r [] = [r]"
| "insert_ordered r (s # ss) =
     (if ordered_before r s then r # s # ss else s # insert_ordered r ss)"

definition order_by :: "report list \<Rightarrow> report list" where
  "order_by rs = foldr insert_ordered rs []"

text \<open>\<open>LIMIT limit OFFSET offset\<close>: a negative limit is no limit, a negative offset is 0.\<close>

definition limit_offset :: "int \<Rightarrow> int \<Rightarrow> 'a list \<Rightarrow> 'a list" where
  "limit_offset limit offset rs =
     (let rest = drop (nat offset) rs in if limit < 0 then rest else take (nat limit) rest)"

record page =
  page_reports :: "report list"
  totalRecords :: int
  hasMore :: bool

text \<open>
  \<open>getFilteredReports(filters, offset, limit)\<close>, for an offset and a limit that SQLite
  takes as integers.
\<close>

definition getFilteredReports :: "filters \<Rightarrow> int \<Rightarrow> int \<Rightarrow> report list \<Rightarrow> page" where
  "getFilteredReports f offset limit t =
     (let totalRecords = int (length (filter (where_clause f) t));
          reports = limit_offset limit offset (order_by (filter (where_clause f) t))
      in \<lparr> page_reports = reports,
           totalRecords = totalRecords,
           hasMore = (offset + int (length reports) < totalRecords) \<rparr>)"

text \<open>
  The pagination parameters of \<open>GET /dashboard\<close>, read from the query string, where a
  parameter is a string or absent: \<open>offset = '0'\<close> and \<open>limit = '20'\<close> are the defaults of
  the destructuring, \<open>parseInt(offset) || 0\<close> and \<open>parseInt(limit) || 20\<close> replace \<open>NaN\<close>
  and 0.
\<close>

definition offsetNum :: "string option \<Rightarrow> number" where
  "offsetNum offset =
     Math_max (Decimal 0 0)
       (or_else (parseInt (case offset of None \<Rightarrow> ''0'' | Some s \<Rightarrow> s)) (Decimal 0 0))"

definition limitNum :: "string option \<Rightarrow> number" where
  "limitNum limit =
     Math_min (Decimal 100 0) (Math_max (Decimal 1 0)
       (or_else (parseInt (case limit of None \<Rightarrow> ''20'' | Some s \<Rightarrow> s)) (Decimal 20 0)))"

text \<open>
  A Number bound to \<open>LIMIT\<close> or \<open>OFFSET\<close> must be an integer of 64 bits: SQLite takes a
  double that is such an integer, and raises an error for any other.
\<close>

definition sql_integer :: "number \<Rightarrow> int option" where
  "sql_integer x =
     (case x of
        Decimal m e \<Rightarrow>
          if e = 0 \<and> - (2 ^ 63) \<le> m \<and> m < 2 ^ 63 then Some m else None
      | _ \<Rightarrow> None)"

text \<open>
  The filter on \<open>ngo_id\<close> that the route passes on: the query parameter trimmed, when it
  is present and not blank.
\<close>

definition ngo_filter :: "string option \<Rightarrow> string option" where
  "ngo_filter q = (if \<not> falsy q \<and> trim (js_String q) \<noteq> [] then Some (trim (js_String q)) else None)"

text \<open>
  The handler of \<open>GET /dashboard\<close>. The query parameters are strings or absent. A month
  parameter that is present must match the month format, or the request is answered
  with status 400 and a message (\<open>Inl\<close>). The single \<open>month\<close> sets both bounds and takes
  precedence over the range parameters. An error raised by the query for the page is
  caught and answered with status 500. The query for the aggregate sums is not
  modelled: the sums are left out of the answer, and the query is taken to succeed.
\<close>

record dashboard_query =
  month_param :: "string option"
  month_from_param :: "string option"
  month_to_param :: "string option"
  ngo_id_param :: "string option"
  offset_param :: "string option"
  limit_param :: "string option"

definition build_filters :: "dashboard_query \<Rightarrow> string + filters" where
  "build_filters q =
     (if \<not> falsy (month_param q) then
        (if \<not> month_format (js_String (month_param q))
         then Inl ''Invalid month format. Use YYYY-MM''
         else Inr \<lparr> monthFrom = month_param q, monthTo = month_param q,
                    ngoId = ngo_filter (ngo_id_param q) \<rparr>)
      else if \<not> falsy (month_from_param q) \<and> \<not> month_format (js_String (month_from_param q))
      then Inl ''Invalid month_from format. Use YYYY-MM''
      else if \<not> falsy (month_to_param q) \<and> \<not> month_format (js_String (month_to_param q))
      then Inl ''Invalid month_to format. Use YYYY-MM''
      else Inr \<lparr> monthFrom = (if falsy (month_from_param q) then None else month_from_param q),
                 monthTo = (if falsy (month_to_param q) then None else month_to_param q),
                 ngoId = ngo_filter (ngo_id_param q) \<rparr>)"

record pagination =
  page_offset :: number
  page_limit :: number
  page_totalRecords :: int
  page_hasMore :: bool

record dashboard_data =
  data_filters :: filters
  data_reports :: "report list"
  data_pagination :: pagination

text \<open>An answer with an error: the status and the message.\<close>

type_synonym failure = "nat \<times> string"

definition dashboard :: "dashboard_query \<Rightarrow> report list \<Rightarrow> failure + dashboard_data" where
  "dashboard q t =
     (case build_filters q of
        Inl err \<Rightarrow> Inl (400, err)
      | Inr f \<Rightarrow>
          (let offsetNum = offsetNum (offset_param q);
               limitNum = limitNum (limit_param q)
           in case (sql_integer offsetNum, sql_integer limitNum) of
                (Some offset, Some limit) \<Rightarrow>
                  (let found = getFilteredReports f offset limit t
                   in Inr \<lparr> data_filters = f,
                            data_reports = page_reports found,
                            data_pagination =
                              \<lparr> page_offset = offsetNum, page_limit = limitNum,
                                page_totalRecords = totalRecords found,
                                page_hasMore = hasMore found \<rparr> \<rparr>)
              | _ \<Rightarrow> Inl (500, ''Failed to fetch dashboard data'')))"

section \<open>Notions used in the statements\<close>

text \<open>
  The buffer \<open>results\<close> that the first pass builds from the records of a stream: every
  record as an object, with its 1-based index.
\<close>

definition indexed_rows :: "string list \<Rightarrow> string list list \<Rightarrow> (row \<times> nat) list" where
  "indexed_rows columns records =
     zip (map (to_object columns) records) [1 ..< Suc (length records)]"

text \<open>A row is stored when it is valid and the store raises no error for it.\<close>

definition row_stored :: "(nat \<Rightarrow> string option) \<Rightarrow> row \<times> nat \<Rightarrow> bool" where
  "row_stored dbError item =
     (isValid (validateRow (fst item) (snd item)) \<and> dbError (snd item) = None)"

definition well_formed :: "row \<times> nat \<Rightarrow> bool" where
  "well_formed item = isValid (validateRow (fst item) (snd item))"


text \<open>
  A variant of a column name \<open>c\<close>: the name with any of its letters in upper case,
  between two runs of white space, each possibly empty.
\<close>

definition white :: "string \<Rightarrow> bool" where
  "white s = (trimStart s = [])"

definition variant_of :: "string \<Rightarrow> string \<Rightarrow> bool" where
  "variant_of c h =
     list_ex (\<lambda>i. white (take i h) \<and> toLowerCase (take (length c) (drop i h)) = c \<and>
                  white (drop (i + length c) h))
       [0 ..< Suc (length h)]"


text \<open>The invariant of the counters of a job, and the order of two states of a job.\<close>

definition counters_ok :: "job \<Rightarrow> bool" where
  "counters_ok j =
     (processed_rows j = successful_rows j + failed_rows j \<and> processed_rows j \<le> total_rows j)"

definition counters_le :: "job \<Rightarrow> job \<Rightarrow> bool" where
  "counters_le a b =
     (processed_rows a \<le> processed_rows b \<and> successful_rows a \<le> successful_rows b \<and>
      failed_rows a \<le> failed_rows b)"

text \<open>
  The invariant of the loop over \<open>results\<close>: the counters add up, and every value
  written so far satisfies the invariant of the counters and is below the current
  counters; the written values are in order.
\<close>

definition loop_invariant :: "nat \<Rightarrow> progress \<Rightarrow> bool" where
  "loop_invariant n st =
     (processedRows st = successfulRows st + failedRows st \<and>
      list_all (\<lambda>j. counters_ok j \<and> counters_le j (job_progress n st)) (written st) \<and>
      sorted_wrt counters_le (written st))"

text \<open>
  A record store that raises no error, and one that raises an error for the row of one
  index.
\<close>

definition no_error :: "nat \<Rightarrow> string option" where
  "no_error rowIndex = None"



text \<open>Uploads on which the theorems below are instantiated.\<close>

definition sample_header :: "string list" where
  "sample_header = [''ngo_id'', ''month'', ''people_helped'', ''events_conducted'', ''funds_utilized'']"

definition sample_records :: "string list list" where
  "sample_records =
     [[''NGO001'', ''2024-01'', ''150'', ''5'', ''50000''],
      [''NGO002'', ''2024-01'', ''80'', ''3'', ''12000.50'']]"

definition sample_upload :: csv_upload where
  "sample_upload = \<lparr> header = sample_header, stream = map Data sample_records \<rparr>"

definition sample_records_bad_row :: "string list list" where
  "sample_records_bad_row =
     [[''NGO001'', ''2024-01'', ''150'', ''5'', ''50000''],
      [''NGO002'', ''2024-1'', ''abc'', ''3'', ''-4''],
      [''NGO003'', ''2024-02'', ''60'', ''2'', ''9000'']]"

definition sample_upload_bad_row :: csv_upload where
  "sample_upload_bad_row = \<lparr> header = sample_header, stream = map Data sample_records_bad_row \<rparr>"




definition sample_upload_missing :: csv_upload where
  "sample_upload_missing =
     \<lparr> header = [''ngo_id'', ''month''], stream = [Data [''NGO001'', ''2024-01'']] \<rparr>"

section \<open>The record store: one record for each key\<close>

lemma same_key_iff: "same_key d r \<longleftrightarrow> report_key r = report_key d"
  by (auto simp: same_key_def report_key_def)

lemma list_ex_same_key:
  "list_ex (same_key d) t \<longleftrightarrow> report_key d \<in> set (map report_key t)"
  by (simp add: list_ex_iff same_key_iff image_iff) metis

lemma upsert_keys:
  "map report_key (insertOrUpdateReport d t) =
     (if report_key d \<in> set (map report_key t) then map report_key t
      else map report_key t @ [report_key d])"
proof -
  have "list_ex (same_key d) t \<longleftrightarrow> report_key d \<in> set (map report_key t)"
    by (rule list_ex_same_key)
  moreover have "map report_key (map (\<lambda>r. if same_key d r
                     then r\<lparr> people_helped := people_helped d,
                             events_conducted := events_conducted d,
                             funds_utilized := funds_utilized d \<rparr>
                     else r) t) = map report_key t"
    by (induction t) (auto simp: report_key_def)
  ultimately show ?thesis
    by (simp add: insertOrUpdateReport_def)
qed

lemma upsert_unique: "unique_keys t \<Longrightarrow> unique_keys (insertOrUpdateReport d t)"
  by (simp add: unique_keys_def upsert_keys)

lemma upserts_unique:
  "unique_keys t \<Longrightarrow> unique_keys (foldl (\<lambda>t d. insertOrUpdateReport d t) t ds)"
  by (induction ds arbitrary: t) (simp_all add: upsert_unique)

lemma filter_key_absent:
  "k \<notin> set (map report_key t) \<Longrightarrow> filter (\<lambda>r. report_key r = k) t = []"
  by (induction t) auto

lemma overwrite_eq:
  "report_key r = report_key d \<Longrightarrow>
   r\<lparr> people_helped := people_helped d, events_conducted := events_conducted d,
      funds_utilized := funds_utilized d \<rparr> = (d :: report)"
  by (simp add: report_key_def)

lemma upsert_filter_same:
  assumes "unique_keys t"
  shows "filter (\<lambda>r. report_key r = report_key d) (insertOrUpdateReport d t) = [d]"
  using assms
proof (induction t)
  case Nil
  then show ?case by (simp add: insertOrUpdateReport_def)
next
  case (Cons a t)
  show ?case
  proof (cases "report_key a = report_key d")
    case True
    then have "report_key d \<notin> set (map report_key t)"
      using Cons.prems by (auto simp: unique_keys_def)
    then have none: "\<not> list_ex (same_key d) t" and f: "filter (\<lambda>r. report_key r = report_key d) t = []"
      by (simp_all add: list_ex_same_key filter_key_absent)
    have "map (\<lambda>r. if same_key d r
                     then r\<lparr> people_helped := people_helped d,
                             events_conducted := events_conducted d,
                             funds_utilized := funds_utilized d \<rparr>
                     else r) t = t"
      using none by (auto simp: list_ex_iff intro: map_idI)
    then show ?thesis
      using True f by (simp add: insertOrUpdateReport_def same_key_iff overwrite_eq)
  next
    case False
    have u: "unique_keys t" using Cons.prems by (simp add: unique_keys_def)
    show ?thesis
      using False Cons.IH [OF u]
      by (auto simp: insertOrUpdateReport_def same_key_iff split: if_splits)
  qed
qed

lemma upsert_filter_other:
  "report_key d \<noteq> k \<Longrightarrow>
   filter (\<lambda>r. report_key r = k) (insertOrUpdateReport d t) = filter (\<lambda>r. report_key r = k) t"
proof -
  assume neq: "report_key d \<noteq> k"
  have "filter (\<lambda>r. report_key r = k) (map (\<lambda>r. if same_key d r
                     then r\<lparr> people_helped := people_helped d,
                             events_conducted := events_conducted d,
                             funds_utilized := funds_utilized d \<rparr>
                     else r) t) = filter (\<lambda>r. report_key r = k) t"
    using neq by (induction t) (auto simp: same_key_iff report_key_def)
  then show ?thesis using neq by (simp add: insertOrUpdateReport_def)
qed

lemma upsert_key_set:
  "report_key ` set (insertOrUpdateReport d t) = insert (report_key d) (report_key ` set t)"
proof -
  have "set (map report_key (insertOrUpdateReport d t)) =
        insert (report_key d) (set (map report_key t))"
    by (auto simp: upsert_keys)
  then show ?thesis by simp
qed

lemma upserts_keys:
  "report_key ` set (foldl (\<lambda>t d. insertOrUpdateReport d t) t ds) =
     report_key ` set t \<union> report_key ` set ds"
proof (induction ds arbitrary: t)
  case Nil
  then show ?case by simp
next
  case (Cons d ds)
  have "report_key ` set (foldl (\<lambda>t d. insertOrUpdateReport d t) (insertOrUpdateReport d t) ds) =
        report_key ` set (insertOrUpdateReport d t) \<union> report_key ` set ds"
    by (rule Cons.IH)
  then show ?case
    by (simp add: upsert_key_set)
qed



text \<open>
  C5. After any sequence of submissions to a table that respects the constraint on
  \<open>(ngo_id, month)\<close>, a key that was submitted at least once has exactly one record, and
  that record holds the values of the latest submission for the key; the constraint
  still holds, so no key has a duplicate row. Single and bulk submissions both store
  through \<open>insertOrUpdateReport\<close>.
\<close>

theorem C5_last_write_wins:
  assumes "unique_keys t"
    and "filter (\<lambda>d. report_key d = k) ds \<noteq> []"
  shows "filter (\<lambda>r. report_key r = k) (foldl (\<lambda>t d. insertOrUpdateReport d t) t ds) =
           [last (filter (\<lambda>d. report_key d = k) ds)]
       \<and> unique_keys (foldl (\<lambda>t d. insertOrUpdateReport d t) t ds)"
  using assms
proof (induction ds rule: rev_induct)
  case Nil
  then show ?case by simp
next
  case (snoc d ds)
  let ?t' = "foldl (\<lambda>t d. insertOrUpdateReport d t) t ds"
  have u: "unique_keys ?t'" using snoc.prems(1) by (rule upserts_unique)
  show ?case
  proof (cases "report_key d = k")
    case True
    then show ?thesis using upsert_filter_same [OF u, of d] upsert_unique [OF u, of d] by simp
  next
    case False
    then have "filter (\<lambda>d. report_key d = k) ds \<noteq> []" using snoc.prems(2) by simp
    then show ?thesis
      using snoc.IH [OF snoc.prems(1)] False upsert_filter_other [of d k ?t'] upsert_unique [OF u, of d]
      by simp
  qed
qed

theorem C5_last_write_wins_witness:
  "unique_keys [\<lparr> ngo_id = ''NGO002'', month = ''2024-01'', people_helped = Decimal 1 0,
                   events_conducted = Decimal 1 0, funds_utilized = Decimal 1 0 \<rparr>]
   \<and> filter (\<lambda>d. report_key d = (''NGO001'', ''2024-01''))
        [\<lparr> ngo_id = ''NGO001'', month = ''2024-01'', people_helped = Decimal 150 0,
            events_conducted = Decimal 5 0, funds_utilized = Decimal 50000 0 \<rparr>,
         \<lparr> ngo_id = ''NGO001'', month = ''2024-01'', people_helped = Decimal 200 0,
            events_conducted = Decimal 6 0, funds_utilized = Decimal 60000 0 \<rparr>] \<noteq> []
   \<and> filter (\<lambda>r. report_key r = (''NGO001'', ''2024-01''))
        (foldl (\<lambda>t d. insertOrUpdateReport d t)
           [\<lparr> ngo_id = ''NGO002'', month = ''2024-01'', people_helped = Decimal 1 0,
               events_conducted = Decimal 1 0, funds_utilized = Decimal 1 0 \<rparr>]
           [\<lparr> ngo_id = ''NGO001'', month = ''2024-01'', people_helped = Decimal 150 0,
               events_conducted = Decimal 5 0, funds_utilized = Decimal 50000 0 \<rparr>,
            \<lparr> ngo_id = ''NGO001'', month = ''2024-01'', people_helped = Decimal 200 0,
               events_conducted = Decimal 6 0, funds_utilized = Decimal 60000 0 \<rparr>]) =
       [\<lparr> ngo_id = ''NGO001'', month = ''2024-01'', people_helped = Decimal 200 0,
           events_conducted = Decimal 6 0, funds_utilized = Decimal 60000 0 \<rparr>]"
  using C5_last_write_wins
    [of "[\<lparr> ngo_id = ''NGO002'', month = ''2024-01'', people_helped = Decimal 1 0,
             events_conducted = Decimal 1 0, funds_utilized = Decimal 1 0 \<rparr>]"
        "(''NGO001'', ''2024-01'')"
        "[\<lparr> ngo_id = ''NGO001'', month = ''2024-01'', people_helped = Decimal 150 0,
            events_conducted = Decimal 5 0, funds_utilized = Decimal 50000 0 \<rparr>,
          \<lparr> ngo_id = ''NGO001'', month = ''2024-01'', people_helped = Decimal 200 0,
            events_conducted = Decimal 6 0, funds_utilized = Decimal 60000 0 \<rparr>]"]
  by (simp add: unique_keys_def report_key_def)

section \<open>Facts about the pipeline\<close>

subsection \<open>Objects and headers\<close>

lemma assign_keys: "fst ` set (assign obj k v) = insert k (fst ` set obj)"
  by (induction obj k v rule: assign.induct) auto

lemma to_object_keys:
  "set (object_keys (to_object columns values)) = fst ` set (zip columns values)"
proof -
  have "fst ` set (foldl (\<lambda>obj (k, v). assign obj k v) acc kvs) = fst ` set acc \<union> fst ` set kvs"
    for acc :: row and kvs
  proof (induction kvs arbitrary: acc)
    case Nil
    then show ?case by simp
  next
    case (Cons kv kvs)
    obtain k v where kv: "kv = (k, v)" by (cases kv)
    have "fst ` set (foldl (\<lambda>obj (k, v). assign obj k v) (assign acc k v) kvs) =
          fst ` set (assign acc k v) \<union> fst ` set kvs"
      by (rule Cons.IH)
    then show ?case
      by (simp add: kv assign_keys)
  qed
  then show ?thesis
    by (simp add: to_object_def object_keys_def)
qed

lemma to_object_keys_full:
  assumes "length values = length columns"
  shows "set (object_keys (to_object columns values)) = set columns"
proof -
  have "fst ` set (zip columns values) = set (map fst (zip columns values))"
    by simp
  also have "\<dots> = set columns"
    using assms by (simp only: map_fst_zip)
  finally show ?thesis
    by (simp add: to_object_keys)
qed


lemma missingHeaders_set: "set a = set b \<Longrightarrow> missingHeaders a = missingHeaders b"
  by (simp add: missingHeaders_def)

lemma validateHeaders_set: "set a = set b \<Longrightarrow> validateHeaders a = validateHeaders b"
  using missingHeaders_set [of a b] by (simp add: validateHeaders_def)

lemma validateHeaders_first_record:
  "length values = length columns \<Longrightarrow>
   validateHeaders (object_keys (to_object columns values)) = validateHeaders columns"
  by (rule validateHeaders_set) (rule to_object_keys_full)

subsection \<open>White space and the variants of a column name\<close>















lemma variant_ofI:
  assumes "white pre" and "white post"
  shows "variant_of (toLowerCase x) (pre @ x @ post)"
proof -
  have "length pre \<in> set [0 ..< Suc (length (pre @ x @ post))]"
    by simp
  moreover have "white (take (length pre) (pre @ x @ post))"
    using assms(1) by simp
  moreover have "toLowerCase (take (length (toLowerCase x)) (drop (length pre) (pre @ x @ post))) =
      toLowerCase x"
    by (simp add: toLowerCase_def)
  moreover have "white (drop (length pre + length (toLowerCase x)) (pre @ x @ post))"
    using assms(2) by (simp add: toLowerCase_def)
  ultimately show ?thesis
    unfolding variant_of_def list_ex_iff by blast
qed



subsection \<open>The first pass\<close>

lemma read_stream_validated:
  "read_stream columns (map Data records) True k results =
     Ended (results @ zip (map (to_object columns) records) [Suc k ..< Suc k + length records])"
proof (induction records arbitrary: k results)
  case Nil
  then show ?case by simp
next
  case (Cons v vs)
  have "[Suc k ..< Suc k + length (v # vs)] = Suc k # [Suc (Suc k) ..< Suc (Suc k) + length vs]"
    by (simp add: upt_conv_Cons del: upt_Suc)
  then show ?case
    using Cons.IH [of "Suc k" "results @ [(to_object columns v, Suc k)]"]
    by (simp del: upt_Suc)
qed

lemma read_stream_accepted:
  assumes "validateHeaders (object_keys (to_object columns v)) = None"
  shows "read_stream columns (map Data (v # vs)) False 0 [] = Ended (indexed_rows columns (v # vs))"
proof -
  have "[1 ..< Suc (length (v # vs))] = 1 # [Suc (Suc 0) ..< Suc (Suc 0) + length vs]"
    by (simp add: upt_conv_Cons del: upt_Suc)
  then show ?thesis
    using assms read_stream_validated [of columns vs "Suc 0" "[(to_object columns v, Suc 0)]"]
    by (simp add: indexed_rows_def del: upt_Suc)
qed

lemma read_stream_rejected:
  assumes "validateHeaders (object_keys (to_object columns v)) = Some err"
  shows "read_stream columns (Data v # evs) False 0 [] = HeaderRejected err"
  using assms by simp

lemma length_indexed_rows: "length (indexed_rows columns records) = length records"
  by (simp add: indexed_rows_def del: upt_Suc)


subsection \<open>The loop over the rows\<close>

lemma process_row_processed:
  "processedRows (process_row dbError n item st) = Suc (processedRows st)"
  by (simp add: process_row_def Let_def split: option.split)

lemma process_row_successful:
  "successfulRows (process_row dbError n item st) =
     successfulRows st + (if row_stored dbError item then 1 else 0)"
  by (simp add: process_row_def Let_def row_stored_def split: option.split)

lemma process_row_failed:
  "failedRows (process_row dbError n item st) =
     failedRows st + (if row_stored dbError item then 0 else 1)"
  by (simp add: process_row_def Let_def row_stored_def split: option.split)


lemma process_row_written:
  "written (process_row dbError n item st) =
     written st @ [job_progress n (process_row dbError n item st)]"
  by (simp add: process_row_def Let_def job_progress_def split: option.split)

lemma process_rows_processed:
  "processedRows (process_rows dbError n rs st) = processedRows st + length rs"
  by (induction rs arbitrary: st) (simp_all add: process_row_processed)

lemma process_rows_successful:
  "successfulRows (process_rows dbError n rs st) =
     successfulRows st + length (filter (row_stored dbError) rs)"
  by (induction rs arbitrary: st) (simp_all add: process_row_successful)

lemma process_rows_failed:
  "failedRows (process_rows dbError n rs st) =
     failedRows st + length (filter (\<lambda>item. \<not> row_stored dbError item) rs)"
  by (induction rs arbitrary: st) (simp_all add: process_row_failed)


lemma process_rows_last_written:
  "rs \<noteq> [] \<Longrightarrow>
   last (written (process_rows dbError n rs st)) = job_progress n (process_rows dbError n rs st)"
proof (induction rs arbitrary: st)
  case Nil
  then show ?case by simp
next
  case (Cons item rest)
  show ?case
  proof (cases "rest = []")
    case True
    then show ?thesis by (simp add: process_row_written)
  next
    case False
    then show ?thesis using Cons.IH by simp
  qed
qed

lemma process_rows_written_nonempty:
  "written st \<noteq> [] \<Longrightarrow> written (process_rows dbError n rs st) \<noteq> []"
  by (induction rs arbitrary: st) (simp_all add: process_row_written)

subsection \<open>The invariant of the loop\<close>

lemma job_progress_fields:
  "total_rows (job_progress n st) = n"
  "processed_rows (job_progress n st) = processedRows st"
  "successful_rows (job_progress n st) = successfulRows st"
  "failed_rows (job_progress n st) = failedRows st"
  "status (job_progress n st) = (if processedRows st = n then completed else processing)"
  by (simp_all add: job_progress_def)

lemma loop_invariant_start: "loop_invariant n (start_processing n t)"
  by (simp add: loop_invariant_def start_processing_def counters_ok_def counters_le_def
      job_progress_def)

lemma process_row_invariant:
  assumes "loop_invariant n st" and "processedRows st < n"
  shows "loop_invariant n (process_row dbError n item st)"
proof -
  let ?st' = "process_row dbError n item st"
  have sum: "processedRows st = successfulRows st + failedRows st"
    and old: "\<forall>j\<in>set (written st). counters_ok j \<and> counters_le j (job_progress n st)"
    and ord: "sorted_wrt counters_le (written st)"
    using assms(1) by (simp_all add: loop_invariant_def list_all_iff)
  have step: "counters_le (job_progress n st) (job_progress n ?st')"
    by (simp add: counters_le_def job_progress_fields process_row_processed
        process_row_successful process_row_failed)
  have new: "counters_ok (job_progress n ?st')"
    using sum assms(2)
    by (simp add: counters_ok_def job_progress_fields process_row_processed
        process_row_successful process_row_failed)
  have below: "\<forall>j\<in>set (written st). counters_le j (job_progress n ?st')"
    using old step by (auto simp: counters_le_def)
  have "processedRows ?st' = successfulRows ?st' + failedRows ?st'"
    using sum by (simp add: process_row_processed process_row_successful process_row_failed)
  moreover have "list_all (\<lambda>j. counters_ok j \<and> counters_le j (job_progress n ?st')) (written ?st')"
    using old below new
    by (subst process_row_written) (simp add: list_all_iff counters_le_def)
  moreover have "sorted_wrt counters_le (written ?st')"
    using ord below
    by (subst process_row_written) (simp add: sorted_wrt_append)
  ultimately show ?thesis
    by (simp add: loop_invariant_def)
qed

lemma process_rows_invariant:
  "loop_invariant n st \<Longrightarrow> processedRows st + length rs \<le> n \<Longrightarrow>
   loop_invariant n (process_rows dbError n rs st)"
proof (induction rs arbitrary: st)
  case Nil
  then show ?case by simp
next
  case (Cons item rest)
  have "loop_invariant n (process_row dbError n item st)"
    using Cons.prems by (intro process_row_invariant) simp_all
  then show ?case
    using Cons.prems(2) by (simp add: Cons.IH process_row_processed)
qed

subsection \<open>The states of a job\<close>

lemma job_states_failed:
  assumes "read_stream (header u) (stream u) False 0 [] = HeaderRejected err"
  shows "job_states dbError t u = [createJob, setJobFailed err]"
    and "promise (processCSVFile dbError t u) = Rejected err"
    and "reports (processCSVFile dbError t u) = t"
  using assms by (simp_all add: job_states_def processCSVFile_def)

lemma job_states_parse_failed:
  assumes "read_stream (header u) (stream u) False 0 [] = ParseFailed err"
  shows "job_states dbError t u = [createJob, setJobFailed (''CSV parse error: '' @ err)]"
  using assms by (simp add: job_states_def processCSVFile_def)

lemma job_states_empty:
  assumes "read_stream (header u) (stream u) False 0 [] = Ended []"
  shows "job_states dbError t u = [createJob, setJobFailed empty_message]"
  using assms by (simp add: job_states_def processCSVFile_def)

lemma job_states_rows:
  assumes "read_stream (header u) (stream u) False 0 [] = Ended rs" and "rs \<noteq> []"
  shows "job_states dbError t u =
           createJob # written (process_rows dbError (length rs) rs (start_processing (length rs) t))"
    and "reports (processCSVFile dbError t u) =
           table (process_rows dbError (length rs) rs (start_processing (length rs) t))"
  using assms by (simp_all add: job_states_def processCSVFile_def Let_def)

lemma final_job_rows:
  assumes "read_stream (header u) (stream u) False 0 [] = Ended rs" and "rs \<noteq> []"
  shows "final_job dbError t u =
           job_progress (length rs)
             (process_rows dbError (length rs) rs (start_processing (length rs) t))"
  using assms process_rows_last_written [OF assms(2), of dbError "length rs" "start_processing (length rs) t"]
    process_rows_written_nonempty [of "start_processing (length rs) t" dbError "length rs" rs]
  by (simp add: final_job_def job_states_rows start_processing_def)

lemma failed_job_ok: "counters_ok (setJobFailed e)" "counters_le createJob j" "counters_ok createJob"
  by (simp_all add: counters_ok_def counters_le_def setJobFailed_def createJob_def)


subsection \<open>Rows that fail validation\<close>










subsection \<open>The message for missing columns\<close>

lemma join_sublist: "x \<in> set xs \<Longrightarrow> sublist x (join sep xs)"
proof (induction sep xs rule: join.induct)
  case (1 sep)
  then show ?case by simp
next
  case (2 sep y)
  then show ?case by simp
next
  case (3 sep y z zs)
  show ?case
  proof (cases "x = y")
    case True
    then show ?thesis by simp
  next
    case False
    then have "sublist x (join sep (z # zs))"
      using "3.IH" "3.prems" by simp
    then obtain ps ss where "join sep (z # zs) = ps @ x @ ss"
      by (auto simp: sublist_def)
    then have "join sep (y # z # zs) = (y @ sep @ ps) @ x @ ss"
      by simp
    then show ?thesis
      unfolding sublist_def by blast
  qed
qed

section \<open>Progress of a job\<close>

text \<open>
  C1. In every state of the job's row that an upload produces, from the row the upload
  route creates to the last value the pipeline writes (so in particular in every state
  written once processing has started), \<open>processed_rows = successful_rows + failed_rows\<close>
  and \<open>processed_rows \<le> total_rows\<close>; and the three counters never decrease from one
  state to a later one.
\<close>

theorem C1_progress_counters:
  "(\<forall>j\<in>set (job_states dbError t u).
       processed_rows j = successful_rows j + failed_rows j \<and> processed_rows j \<le> total_rows j)
   \<and> sorted_wrt counters_le (job_states dbError t u)"
proof -
  have "list_all counters_ok (job_states dbError t u) \<and> sorted_wrt counters_le (job_states dbError t u)"
  proof (cases "read_stream (header u) (stream u) False 0 []")
    case (HeaderRejected err)
    then show ?thesis by (simp add: job_states_failed failed_job_ok)
  next
    case (ParseFailed err)
    then show ?thesis by (simp add: job_states_parse_failed failed_job_ok)
  next
    case (Ended rs)
    show ?thesis
    proof (cases "rs = []")
      case True
      then show ?thesis using Ended by (simp add: job_states_empty failed_job_ok)
    next
      case False
      let ?st = "process_rows dbError (length rs) rs (start_processing (length rs) t)"
      have "loop_invariant (length rs) ?st"
        by (intro process_rows_invariant loop_invariant_start) (simp add: start_processing_def)
      then have "list_all counters_ok (written ?st)" "sorted_wrt counters_le (written ?st)"
        by (simp_all add: loop_invariant_def list_all_iff)
      then show ?thesis
        using Ended False by (simp add: job_states_rows failed_job_ok)
    qed
  qed
  then show ?thesis
    by (auto simp: list_all_iff counters_ok_def)
qed

theorem C1_progress_counters_witness:
  "length (job_states no_error [] sample_upload_bad_row) = 5
   \<and> list_all counters_ok (job_states no_error [] sample_upload_bad_row)
   \<and> sorted_wrt counters_le (job_states no_error [] sample_upload_bad_row)"
proof -
  have "length (job_states no_error [] sample_upload_bad_row) = 5"
    by code_simp
  then show ?thesis
    using C1_progress_counters [of no_error "[]" sample_upload_bad_row]
    by (auto simp: list_all_iff counters_ok_def)
qed

text \<open>
  C2. When the header of an upload passes validation and its stream yields \<open>N \<ge> 1\<close>
  records and no parse error, the job ends in \<open>completed\<close> with \<open>total_rows = N\<close> and
  \<open>processed_rows = successful_rows + failed_rows = N\<close>. This holds whether or not the
  rows are well-formed and whether or not the store raises errors, so in particular for
  \<open>N\<close> well-formed rows.
\<close>

theorem C2_all_rows_processed:
  assumes "validateHeaders (header u) = None"
    and "stream u = map Data records"
    and "records \<noteq> []"
    and "\<forall>v\<in>set records. length v = length (header u)"
  shows "status (final_job dbError t u) = completed
       \<and> total_rows (final_job dbError t u) = length records
       \<and> processed_rows (final_job dbError t u) = length records
       \<and> successful_rows (final_job dbError t u) + failed_rows (final_job dbError t u) =
           length records"
proof -
  obtain v vs where records: "records = v # vs"
    using assms(3) by (cases records) auto
  let ?rs = "indexed_rows (header u) records"
  have "validateHeaders (object_keys (to_object (header u) v)) = None"
    using assms(1,4) records by (simp add: validateHeaders_first_record)
  then have ended: "read_stream (header u) (stream u) False 0 [] = Ended ?rs"
    using assms(2) records read_stream_accepted [of "header u" v vs] by simp
  have len: "length ?rs = length records" and ne: "?rs \<noteq> []"
    using assms(3) length_indexed_rows [of "header u" records] by auto
  have "final_job dbError t u =
          job_progress (length ?rs) (process_rows dbError (length ?rs) ?rs (start_processing (length ?rs) t))"
    using ended ne by (rule final_job_rows)
  then show ?thesis
    using len sum_length_filter_compl [of "row_stored dbError" ?rs]
    by (simp add: job_progress_fields process_rows_processed process_rows_successful
        process_rows_failed start_processing_def)
qed

theorem C2_all_rows_processed_witness:
  "validateHeaders (header sample_upload) = None
   \<and> stream sample_upload = map Data sample_records
   \<and> sample_records \<noteq> []
   \<and> list_all well_formed (indexed_rows (header sample_upload) sample_records)
   \<and> status (final_job no_error [] sample_upload) = completed
   \<and> total_rows (final_job no_error [] sample_upload) = 2
   \<and> processed_rows (final_job no_error [] sample_upload) = 2
   \<and> successful_rows (final_job no_error [] sample_upload) +
       failed_rows (final_job no_error [] sample_upload) = 2"
proof -
  have h1: "validateHeaders (header sample_upload) = None"
    by code_simp
  have h2: "stream sample_upload = map Data sample_records"
    by (simp add: sample_upload_def)
  have h3: "sample_records \<noteq> []"
    by (simp add: sample_records_def)
  have h4: "\<forall>v\<in>set sample_records. length v = length (header sample_upload)"
    by (simp add: sample_records_def sample_upload_def sample_header_def)
  have wf: "list_all well_formed (indexed_rows (header sample_upload) sample_records)"
    by code_simp
  have n: "length sample_records = 2"
    by (simp add: sample_records_def)
  show ?thesis
    using C2_all_rows_processed [OF h1 h2 h3 h4, of no_error "[]"] h1 h2 h3 wf n
    by simp
qed

section \<open>Uploads with a rejected header\<close>

text \<open>
  C3. An upload whose header lacks required columns does not always end with a message
  that lists them: when the file has a header line only, the stream yields no record,
  the header is never validated, and the one message of the failed job is the one for
  an empty file.
\<close>

theorem C3_header_only_counterexample:
  "missingHeaders (header \<lparr> header = [''ngo_id'', ''month''], stream = [] \<rparr>) =
     [''people_helped'', ''events_conducted'', ''funds_utilized'']
   \<and> job_errors (final_job no_error [] \<lparr> header = [''ngo_id'', ''month''], stream = [] \<rparr>) =
     [''CSV file is empty or contains no data rows'']"
  by code_simp

text \<open>
  C3, as the code has it. When the header of an upload lacks one or more required columns
  and the stream yields a record first, the job ends in \<open>failed\<close> with \<open>total_rows = 0\<close>
  and exactly one message, \<open>Missing required columns:\<close> followed by the missing names
  joined by a comma and a space; every required name that no header column equals after
  case folding and trimming is among them. Nothing but this state is written to the
  job's row, the promise is rejected, and the table is unchanged: no row is validated or
  stored.
\<close>

theorem C3_missing_columns:
  assumes "missingHeaders (header u) \<noteq> []"
    and "stream u = Data v # evs"
    and "length v = length (header u)"
  shows "job_states dbError t u =
           [createJob,
            setJobFailed (''Missing required columns: '' @ join '', '' (missingHeaders (header u)))]
       \<and> status (final_job dbError t u) = failed
       \<and> total_rows (final_job dbError t u) = 0
       \<and> job_errors (final_job dbError t u) =
           [''Missing required columns: '' @ join '', '' (missingHeaders (header u))]
       \<and> set (missingHeaders (header u)) =
           {c \<in> set REQUIRED_HEADERS. c \<notin> (\<lambda>h. trim (toLowerCase h)) ` set (header u)}
       \<and> (\<forall>c\<in>set (missingHeaders (header u)).
             sublist c (join '', '' (missingHeaders (header u))))
       \<and> promise (processCSVFile dbError t u) =
           Rejected (''Missing required columns: '' @ join '', '' (missingHeaders (header u)))
       \<and> reports (processCSVFile dbError t u) = t"
proof -
  let ?msg = "''Missing required columns: '' @ join '', '' (missingHeaders (header u))"
  have "validateHeaders (header u) = Some ?msg"
    using assms(1) by (simp add: validateHeaders_def)
  then have "validateHeaders (object_keys (to_object (header u) v)) = Some ?msg"
    using assms(3) by (simp add: validateHeaders_first_record)
  then have rejected: "read_stream (header u) (stream u) False 0 [] = HeaderRejected ?msg"
    using assms(2) by (simp add: read_stream_rejected)
  have states: "job_states dbError t u = [createJob, setJobFailed ?msg]"
    and rest: "promise (processCSVFile dbError t u) = Rejected ?msg"
      "reports (processCSVFile dbError t u) = t"
    using job_states_failed [OF rejected] by simp_all
  have final: "final_job dbError t u = setJobFailed ?msg"
    using states by (simp add: final_job_def)
  have missing: "set (missingHeaders (header u)) =
           {c \<in> set REQUIRED_HEADERS. c \<notin> (\<lambda>h. trim (toLowerCase h)) ` set (header u)}"
    by (auto simp: missingHeaders_def)
  have listed: "\<forall>c\<in>set (missingHeaders (header u)).
             sublist c (join '', '' (missingHeaders (header u)))"
    by (simp add: join_sublist)
  show ?thesis
    using states rest missing listed unfolding final by (simp add: setJobFailed_def)
qed

theorem C3_missing_columns_witness:
  "missingHeaders (header sample_upload_missing) =
     [''people_helped'', ''events_conducted'', ''funds_utilized'']
   \<and> stream sample_upload_missing = [Data [''NGO001'', ''2024-01'']]
   \<and> status (final_job no_error [] sample_upload_missing) = failed
   \<and> total_rows (final_job no_error [] sample_upload_missing) = 0
   \<and> job_errors (final_job no_error [] sample_upload_missing) =
       [''Missing required columns: people_helped, events_conducted, funds_utilized'']
   \<and> reports (processCSVFile no_error [] sample_upload_missing) = []"
proof -
  have m: "missingHeaders (header sample_upload_missing) =
     [''people_helped'', ''events_conducted'', ''funds_utilized'']"
    by code_simp
  then have h1: "missingHeaders (header sample_upload_missing) \<noteq> []"
    by simp
  have h2: "stream sample_upload_missing = Data [''NGO001'', ''2024-01''] # []"
    by (simp add: sample_upload_missing_def)
  have h3: "length [''NGO001'', ''2024-01''] = length (header sample_upload_missing)"
    by (simp add: sample_upload_missing_def)
  show ?thesis
    using C3_missing_columns [OF h1 h2 h3, of no_error "[]"] m h2
    by simp
qed

section \<open>Isolation of a malformed row\<close>





section \<open>Uploads without data rows\<close>

text \<open>
  C6. When the stream of an upload yields no record (an empty file, or a file with a
  header line only), the job ends in \<open>failed\<close> with \<open>total_rows = 0\<close> and the message
  \<open>CSV file is empty or contains no data rows\<close>. The outcome comes from the handler of
  the end of the stream: the first pass ends with no result whatever the header is, the
  header is never validated, and the promise is resolved, not rejected.
\<close>

theorem C6_no_data_rows:
  assumes "stream u = []"
  shows "read_stream (header u) (stream u) False 0 [] = Ended []
       \<and> job_states dbError t u = [createJob, setJobFailed empty_message]
       \<and> status (final_job dbError t u) = failed
       \<and> total_rows (final_job dbError t u) = 0
       \<and> job_errors (final_job dbError t u) = [''CSV file is empty or contains no data rows'']
       \<and> promise (processCSVFile dbError t u) =
           Resolved \<lparr> totalRows = 0, summary_successfulRows = 0, summary_failedRows = 0,
                      summary_errors = [''CSV file is empty or contains no data rows''] \<rparr>
       \<and> reports (processCSVFile dbError t u) = t"
  using assms
  by (simp add: final_job_def job_states_def processCSVFile_def setJobFailed_def
      empty_message_def)

theorem C6_no_data_rows_witness:
  "stream \<lparr> header = [''ngo_id'', ''month''], stream = [] \<rparr> = []
   \<and> validateHeaders [''ngo_id'', ''month''] \<noteq> None
   \<and> status (final_job no_error [] \<lparr> header = [''ngo_id'', ''month''], stream = [] \<rparr>) = failed
   \<and> total_rows (final_job no_error [] \<lparr> header = [''ngo_id'', ''month''], stream = [] \<rparr>) = 0
   \<and> job_errors (final_job no_error [] \<lparr> header = [''ngo_id'', ''month''], stream = [] \<rparr>) =
       [''CSV file is empty or contains no data rows'']"
proof -
  have "validateHeaders [''ngo_id'', ''month''] \<noteq> None"
    by code_simp
  then show ?thesis
    using C6_no_data_rows [of "\<lparr> header = [''ngo_id'', ''month''], stream = [] \<rparr>" no_error "[]"]
    by simp
qed

section \<open>Headers that differ in case or white space\<close>



section \<open>Validation of numeric fields\<close>

text \<open>
  C10. Field values that are not integers are accepted when they begin with digits:
  \<open>people_helped = "5.7"\<close> and \<open>"12abc"\<close> pass with no error and are stored as 5 and 12,
  the prefix read by \<open>parseInt\<close>; \<open>events_conducted\<close> is read the same way, and
  \<open>funds_utilized = "50000.75xyz"\<close> is stored as 50000.75, the prefix read by
  \<open>parseFloat\<close>. This holds for the row validator of the bulk path and for the validator
  of the single-record path.
\<close>

theorem C10_numeric_prefix_accepted:
  "validateRow [(''ngo_id'', ''NGO001''), (''month'', ''2024-01''), (''people_helped'', ''5.7''),
                (''events_conducted'', ''12abc''), (''funds_utilized'', ''50000.75xyz'')] 1 =
     \<lparr> isValid = True, errors = [],
       data = \<lparr> ngo_id = ''NGO001'', month = ''2024-01'', people_helped = Decimal 5 0,
                events_conducted = Decimal 12 0, funds_utilized = Decimal 5000075 (- 2) \<rparr> \<rparr>
   \<and> validateRow [(''ngo_id'', ''NGO001''), (''month'', ''2024-01''), (''people_helped'', ''12abc''),
                (''events_conducted'', ''5.7''), (''funds_utilized'', ''50000.75xyz'')] 2 =
     \<lparr> isValid = True, errors = [],
       data = \<lparr> ngo_id = ''NGO001'', month = ''2024-01'', people_helped = Decimal 12 0,
                events_conducted = Decimal 5 0, funds_utilized = Decimal 5000075 (- 2) \<rparr> \<rparr>
   \<and> validateReport [(''ngo_id'', ''NGO001''), (''month'', ''2024-01''), (''people_helped'', ''5.7''),
                (''events_conducted'', ''12abc''), (''funds_utilized'', ''50000.75xyz'')] =
     \<lparr> isValid = True, errors = [],
       data = \<lparr> ngo_id = ''NGO001'', month = ''2024-01'', people_helped = Decimal 5 0,
                events_conducted = Decimal 12 0, funds_utilized = Decimal 5000075 (- 2) \<rparr> \<rparr>
   \<and> validateReport [(''ngo_id'', ''NGO001''), (''month'', ''2024-01''), (''people_helped'', ''12abc''),
                (''events_conducted'', ''5.7''), (''funds_utilized'', ''50000.75xyz'')] =
     \<lparr> isValid = True, errors = [],
       data = \<lparr> ngo_id = ''NGO001'', month = ''2024-01'', people_helped = Decimal 12 0,
                events_conducted = Decimal 5 0, funds_utilized = Decimal 5000075 (- 2) \<rparr> \<rparr>"
  by code_simp

section \<open>Pagination of the dashboard\<close>

lemma lt_asym: "lt x y \<Longrightarrow> \<not> lt y x"
  by (cases x; cases y) (auto simp: min.commute)

lemma limitNum_range:
  "\<not> lt (limitNum limit) (Decimal 1 0) \<and> \<not> lt (Decimal 100 0) (limitNum limit)"
proof -
  let ?x = "or_else (parseInt (case limit of None \<Rightarrow> ''20'' | Some s \<Rightarrow> s)) (Decimal 20 0)"
  let ?y = "Math_max (Decimal 1 0) ?x"
  have x: "?x \<noteq> NaN"
    by (cases "parseInt (case limit of None \<Rightarrow> ''20'' | Some s \<Rightarrow> s)") simp_all
  then have y: "?y = (if lt (Decimal 1 0) ?x then ?x else Decimal 1 0)"
    by (simp add: Math_max_def isNaN_def)
  then have "?y \<noteq> NaN"
    using x by simp
  then have l: "limitNum limit = (if lt ?y (Decimal 100 0) then ?y else Decimal 100 0)"
    by (simp add: limitNum_def Math_min_def isNaN_def)
  have "\<not> lt ?y (Decimal 1 0)"
    using lt_asym [of "Decimal 1 0" ?x] by (simp add: y)
  then have "\<not> lt (limitNum limit) (Decimal 1 0)"
    by (simp add: l)
  moreover have "\<not> lt (Decimal 100 0) (limitNum limit)"
    using lt_asym [of ?y "Decimal 100 0"] by (simp add: l)
  ultimately show ?thesis
    by simp
qed

lemma limitNum_default: "limitNum None = Decimal 20 0"
  by code_simp

lemma limitNum_clamped:
  "parseInt s = Decimal n 0 \<Longrightarrow> n \<noteq> 0 \<Longrightarrow> limitNum (Some s) = Decimal (min 100 (max 1 n)) 0"
  by (simp add: limitNum_def Math_min_def Math_max_def isNaN_def)

lemma limitNum_infinite:
  "parseInt s = Infinity \<Longrightarrow> limitNum (Some s) = Decimal 100 0"
  "parseInt s = NegInfinity \<Longrightarrow> limitNum (Some s) = Decimal 1 0"
  by (simp_all add: limitNum_def Math_min_def Math_max_def isNaN_def)

lemma offsetNum_nonneg: "\<not> lt (offsetNum offset) (Decimal 0 0)"
proof -
  let ?x = "or_else (parseInt (case offset of None \<Rightarrow> ''0'' | Some s \<Rightarrow> s)) (Decimal 0 0)"
  have x: "?x \<noteq> NaN"
    by (cases "parseInt (case offset of None \<Rightarrow> ''0'' | Some s \<Rightarrow> s)") simp_all
  then have "offsetNum offset = (if lt (Decimal 0 0) ?x then ?x else Decimal 0 0)"
    by (simp add: offsetNum_def Math_max_def isNaN_def)
  then show ?thesis
    using lt_asym [of "Decimal 0 0" ?x] by simp
qed

lemma offsetNum_default: "offsetNum None = Decimal 0 0"
  by code_simp

lemma offsetNum_max: "parseInt s = Decimal n 0 \<Longrightarrow> offsetNum (Some s) = Decimal (max 0 n) 0"
  by (simp add: offsetNum_def Math_max_def isNaN_def)



lemma length_insert_ordered: "length (insert_ordered r rs) = Suc (length rs)"
  by (induction rs) simp_all

lemma length_order_by: "length (order_by rs) = length rs"
  by (induction rs) (simp_all add: order_by_def length_insert_ordered)


lemma hasMore_iff:
  "hasMore (getFilteredReports f offset limit t) \<longleftrightarrow>
   offset + int (length (page_reports (getFilteredReports f offset limit t)))
     < totalRecords (getFilteredReports f offset limit t)"
  by (simp add: getFilteredReports_def Let_def)

lemma page_length:
  assumes "0 \<le> offset" and "0 \<le> limit"
  shows "int (length (page_reports (getFilteredReports f offset limit t))) =
         min limit (max 0 (totalRecords (getFilteredReports f offset limit t) - offset))"
  using assms
  by (auto simp: getFilteredReports_def Let_def limit_offset_def length_order_by min_def max_def)

lemma dashboard_page:
  assumes "dashboard q t = Inr d"
  shows "\<exists>f offset limit.
           build_filters q = Inr f \<and>
           sql_integer (offsetNum (offset_param q)) = Some offset \<and>
           sql_integer (limitNum (limit_param q)) = Some limit \<and>
           data_filters d = f \<and>
           data_reports d = page_reports (getFilteredReports f offset limit t) \<and>
           page_totalRecords (data_pagination d) = totalRecords (getFilteredReports f offset limit t) \<and>
           page_hasMore (data_pagination d) = hasMore (getFilteredReports f offset limit t) \<and>
           page_offset (data_pagination d) = offsetNum (offset_param q) \<and>
           page_limit (data_pagination d) = limitNum (limit_param q)"
  using assms
  by (auto simp: dashboard_def Let_def split: sum.splits option.splits)

lemma dashboard_pagination:
  assumes "dashboard q t = Inr d"
  shows "page_offset (data_pagination d) = offsetNum (offset_param q)"
    and "page_limit (data_pagination d) = limitNum (limit_param q)"
    and "\<exists>offset. sql_integer (page_offset (data_pagination d)) = Some offset \<and>
           (page_hasMore (data_pagination d) \<longleftrightarrow>
            offset + int (length (data_reports d)) < page_totalRecords (data_pagination d))"
  using dashboard_page [OF assms] by (auto simp: hasMore_iff)

lemma dashboard_offset_refused:
  assumes "build_filters q = Inr f" and "sql_integer (offsetNum (offset_param q)) = None"
  shows "dashboard q t = Inl (500, ''Failed to fetch dashboard data'')"
  using assms by (simp add: dashboard_def Let_def)

lemma dashboard_offset_too_large:
  "dashboard \<lparr> month_param = None, month_from_param = None, month_to_param = None,
               ngo_id_param = None, offset_param = Some ''10000000000000000000'',
               limit_param = None \<rparr> t =
     Inl (500, ''Failed to fetch dashboard data'')"
proof -
  have "build_filters \<lparr> month_param = None, month_from_param = None, month_to_param = None,
               ngo_id_param = None, offset_param = Some ''10000000000000000000'',
               limit_param = None \<rparr> = Inr \<lparr> monthFrom = None, monthTo = None, ngoId = None \<rparr>"
    by code_simp
  moreover have "sql_integer (offsetNum (Some ''10000000000000000000'')) = None"
    by code_simp
  ultimately show ?thesis
    by (simp add: dashboard_def Let_def)
qed

text \<open>
  C7. The effective offset is \<open>max(0, offset)\<close> and \<open>hasMore\<close> is
  \<open>offset + returned < total\<close>, as the lemmas above show, and a limit that parses to a
  number other than 0 is clamped into \<open>[1, 100]\<close>. For the request \<open>limit=0\<close> the clamp
  of the given limit is 1, and the route computes 20: zero is replaced by the default
  before the clamp is applied, although every negative limit is clamped to 1.
\<close>

theorem C7_limit_zero_not_clamped:
  "limitNum (Some ''0'') = Decimal 20 0
   \<and> Math_min (Decimal 100 0) (Math_max (Decimal 1 0) (Decimal 0 0)) = Decimal 1 0
   \<and> limitNum (Some ''-1'') = Decimal 1 0
   \<and> dashboard \<lparr> month_param = None, month_from_param = None, month_to_param = None,
                 ngo_id_param = None, offset_param = None, limit_param = Some ''0'' \<rparr> [] =
       Inr \<lparr> data_filters = \<lparr> monthFrom = None, monthTo = None, ngoId = None \<rparr>,
             data_reports = [],
             data_pagination = \<lparr> page_offset = Decimal 0 0, page_limit = Decimal 20 0,
                                 page_totalRecords = 0,
                                 page_hasMore = False \<rparr> \<rparr>"
  by code_simp

section \<open>The filter on the organisation\<close>












end
